theory Spec2Isabelle
  imports Main
begin

section \<open>Receipt processor: scoring engine and receipt store\<close>

text \<open>
  A shallow embedding of \<^verbatim>\<open>receipt-api/main.go\<close>. The program is modelled on a 64-bit
  platform (GOARCH amd64): Go's \<^verbatim>\<open>int\<close> is a 64-bit two's complement integer, written
  here as an \<open>int\<close> that is wrapped into the 64-bit range after every addition. A Go
  \<^verbatim>\<open>string\<close> is a sequence of bytes, hence a \<open>string\<close> (a list of 8-bit \<open>char\<close>s).
  The functions of Go's standard library that the program calls (\<^verbatim>\<open>strconv.Atoi\<close>,
  \<^verbatim>\<open>strconv.ParseFloat\<close>, \<^verbatim>\<open>strings.Split\<close>, \<^verbatim>\<open>strings.TrimSpace\<close>, \<^verbatim>\<open>math.Ceil\<close>,
  the \<^verbatim>\<open>range\<close> loop over a string) are modelled after the library's documented behaviour.
\<close>

subsection \<open>Machine integers\<close>

definition wrap64 :: "int \<Rightarrow> int" where
  "wrap64 x = (x + 9223372036854775808) mod 18446744073709551616 - 9223372036854775808"

text \<open>Go's \<^verbatim>\<open>%\<close> truncates towards zero: the remainder has the sign of the dividend.\<close>

definition go_rem :: "int \<Rightarrow> int \<Rightarrow> int" where
  "go_rem a b = sgn a * (\<bar>a\<bar> mod \<bar>b\<bar>)"

subsection \<open>Bytes and digits\<close>

definition byte :: "char \<Rightarrow> int" where
  "byte c = of_char c"

definition isDigit :: "char \<Rightarrow> bool" where
  "isDigit c = (48 \<le> byte c \<and> byte c \<le> 57)"

definition digitVal :: "char \<Rightarrow> int" where
  "digitVal c = byte c - 48"

text \<open>\<^verbatim>\<open>lower(c)\<close> of package strconv is \<^verbatim>\<open>c | ('x' - 'X')\<close>: it sets bit 5.\<close>

definition lower :: "char \<Rightarrow> int" where
  "lower c = (if (byte c div 32) mod 2 = 0 then byte c + 32 else byte c)"

definition isHexLetter :: "char \<Rightarrow> bool" where
  "isHexLetter c = (97 \<le> lower c \<and> lower c \<le> 102)"

subsection \<open>strconv.Atoi\<close>

text \<open>
  \<^verbatim>\<open>Atoi\<close> accepts an optional sign followed by one or more decimal digits, and fails
  with a range error when the value does not fit a 64-bit \<^verbatim>\<open>int\<close>. Every error is \<open>None\<close>.
\<close>

fun digitsVal :: "int \<Rightarrow> string \<Rightarrow> int" where
  "digitsVal n [] = n"
| "digitsVal n (c # cs) = digitsVal (n * 10 + digitVal c) cs"

definition Atoi :: "string \<Rightarrow> int option" where
  "Atoi s =
     (let neg = (s \<noteq> [] \<and> hd s = CHR ''-'');
          ds = (if s \<noteq> [] \<and> (hd s = CHR ''-'' \<or> hd s = CHR ''+'') then tl s else s)
      in if ds = [] \<or> \<not> list_all isDigit ds then None
         else let n = digitsVal 0 ds
              in if neg then (if 9223372036854775808 < n then None else Some (- n))
                 else (if 9223372036854775808 \<le> n then None else Some n))"

subsection \<open>strings.Split with a one-byte separator\<close>

text \<open>
  \<^verbatim>\<open>Split(s, sep)\<close> cuts \<open>s\<close> at every occurrence of \<open>sep\<close>; the result has one more
  element than there are separators, so the empty string splits into one empty part.
\<close>

fun Split :: "string \<Rightarrow> char \<Rightarrow> string list" where
  "Split [] sep = [[]]"
| "Split (c # cs) sep =
     (if c = sep then [] # Split cs sep
      else (case Split cs sep of p # ps \<Rightarrow> (c # p) # ps | [] \<Rightarrow> [[c]]))"

subsection \<open>UTF-8 decoding\<close>

definition RuneError :: int where
  "RuneError = 65533"

text \<open>
  \<^verbatim>\<open>utf8.DecodeRuneInString\<close>: the first rune of \<open>s\<close> and its width in bytes. A byte
  sequence that is not the shortest encoding of a code point (a stray continuation
  byte, an overlong form, a surrogate, a value above U+10FFFF, a truncated sequence)
  decodes to \<open>(RuneError, 1)\<close>; the empty string to \<open>(RuneError, 0)\<close>. The bounds on
  the first and second byte are those of the tables \<^verbatim>\<open>first\<close> and \<^verbatim>\<open>acceptRanges\<close>.
\<close>

definition DecodeRuneInString :: "string \<Rightarrow> int \<times> nat" where
  "DecodeRuneInString s =
     (if s = [] then (RuneError, 0)
      else let p0 = byte (s ! 0) in
        if p0 < 128 then (p0, 1)
        else if p0 < 194 \<or> 244 < p0 then (RuneError, 1)
        else let sz = (if p0 < 224 then 2 else if p0 < 240 then 3 else 4 :: nat);
                 lo = (if p0 = 224 then 160 else if p0 = 240 then 144 else 128 :: int);
                 hi = (if p0 = 237 then 159 else if p0 = 244 then 143 else 191 :: int)
          in if length s < sz then (RuneError, 1)
             else let b1 = byte (s ! 1) in
               if b1 < lo \<or> hi < b1 then (RuneError, 1)
               else if sz \<le> 2 then ((p0 mod 32) * 64 + b1 mod 64, 2)
               else let b2 = byte (s ! 2) in
                 if b2 < 128 \<or> 191 < b2 then (RuneError, 1)
                 else if sz \<le> 3 then ((p0 mod 16) * 4096 + (b1 mod 64) * 64 + b2 mod 64, 3)
                 else let b3 = byte (s ! 3) in
                   if b3 < 128 \<or> 191 < b3 then (RuneError, 1)
                   else ((p0 mod 8) * 262144 + (b1 mod 64) * 4096 + (b2 mod 64) * 64
                           + b3 mod 64, 4))"

text \<open>\<^verbatim>\<open>utf8.RuneStart\<close>: the byte is not a continuation byte.\<close>

definition RuneStart :: "char \<Rightarrow> bool" where
  "RuneStart c = (byte c div 64 \<noteq> 2)"

text \<open>
  The backward scan of \<^verbatim>\<open>utf8.DecodeLastRuneInString\<close>: from \<open>start\<close> downwards, stop
  at a rune start or below \<open>lim\<close>.
\<close>

function backToRuneStart :: "string \<Rightarrow> int \<Rightarrow> int \<Rightarrow> int" where
  "backToRuneStart s lim start =
     (if lim \<le> start
      then (if RuneStart (s ! nat start) then start else backToRuneStart s lim (start - 1))
      else start)"
  by pat_completeness auto
termination
  by (relation "measure (\<lambda>(s, lim, start). nat (start - lim + 1))") auto

declare backToRuneStart.simps [simp del]

definition DecodeLastRuneInString :: "string \<Rightarrow> int \<times> nat" where
  "DecodeLastRuneInString s =
     (let end = length s in
      if end = 0 then (RuneError, 0)
      else let r = byte (s ! (end - 1)) in
        if r < 128 then (r, 1)
        else let lim = max 0 (int end - 4);
                 start = nat (max 0 (backToRuneStart s lim (int end - 2)));
                 (r, size) = DecodeRuneInString (drop start s)
          in if start + size \<noteq> end then (RuneError, 1) else (r, size))"

text \<open>\<^verbatim>\<open>unicode.IsSpace\<close>: the code points with Unicode's White Space property.\<close>

definition IsSpace :: "int \<Rightarrow> bool" where
  "IsSpace r = ((9 \<le> r \<and> r \<le> 13) \<or> r = 32 \<or> r = 133 \<or> r = 160 \<or> r = 5760
      \<or> (8192 \<le> r \<and> r \<le> 8202) \<or> r = 8232 \<or> r = 8233 \<or> r = 8239 \<or> r = 8287
      \<or> r = 12288)"

subsection \<open>strings.TrimSpace\<close>

lemma DecodeRuneInString_size: "s \<noteq> [] \<Longrightarrow> 1 \<le> snd (DecodeRuneInString s)"
  by (simp add: DecodeRuneInString_def Let_def)

lemma DecodeRuneInString_size_le: "snd (DecodeRuneInString s) \<le> 4"
  by (simp add: DecodeRuneInString_def Let_def)

lemma backToRuneStart_le: "backToRuneStart s lim start \<le> start"
proof (induction s lim start rule: backToRuneStart.induct)
  case (1 s lim start)
  show ?case
  proof (cases "lim \<le> start \<and> \<not> RuneStart (s ! nat start)")
    case True
    with "1.IH" have "backToRuneStart s lim (start - 1) \<le> start - 1" by simp
    with True show ?thesis by (subst backToRuneStart.simps) simp
  next
    case False
    then show ?thesis by (subst backToRuneStart.simps) auto
  qed
qed

lemma DecodeLastRuneInString_size:
  assumes "s \<noteq> []"
  shows "1 \<le> snd (DecodeLastRuneInString s)"
proof -
  define start where "start = nat (max 0 (backToRuneStart s (max 0 (int (length s) - 4)) (int (length s) - 2)))"
  have "backToRuneStart s (max 0 (int (length s) - 4)) (int (length s) - 2) \<le> int (length s) - 2"
    by (rule backToRuneStart_le)
  with assms have "start < length s"
    by (cases s) (auto simp: start_def)
  then have ne: "drop start s \<noteq> []" by simp
  obtain r size where d: "DecodeRuneInString (drop start s) = (r, size)" by force
  from DecodeRuneInString_size [OF ne] d have "1 \<le> size" by simp
  with assms d show ?thesis
    by (simp add: DecodeLastRuneInString_def Let_def start_def [symmetric])
qed

text \<open>
  \<^verbatim>\<open>TrimLeftFunc(s, unicode.IsSpace)\<close>: \<^verbatim>\<open>indexFunc\<close> walks the runes of \<open>s\<close> from the
  left up to the first one that is not a space; the result is \<open>s\<close> from there on, or
  the empty string when every rune is a space.
\<close>

function TrimLeftFunc :: "string \<Rightarrow> string" where
  "TrimLeftFunc s =
     (if s = [] then []
      else if IsSpace (fst (DecodeRuneInString s))
           then TrimLeftFunc (drop (snd (DecodeRuneInString s)) s)
           else s)"
  by pat_completeness auto
termination
proof (relation "measure length")
  fix s :: string
  assume "s \<noteq> []"
  with DecodeRuneInString_size [of s]
  show "(drop (snd (DecodeRuneInString s)) s, s) \<in> measure length"
    by (cases s) auto
qed simp

declare TrimLeftFunc.simps [simp del]

text \<open>
  \<^verbatim>\<open>lastIndexFunc(s, unicode.IsSpace, false)\<close>: the byte index at which the last rune
  that is not a space starts, walking backwards with \<^verbatim>\<open>DecodeLastRuneInString\<close>;
  \<open>None\<close> stands for the result \<open>-1\<close>.
\<close>

function lastIndexFunc :: "string \<Rightarrow> nat option" where
  "lastIndexFunc s =
     (if s = [] then None
      else let i = length s - snd (DecodeLastRuneInString s) in
        if \<not> IsSpace (fst (DecodeLastRuneInString s)) then Some i
        else lastIndexFunc (take i s))"
  by pat_completeness auto
termination
proof (relation "measure length")
  fix s :: string and i :: nat
  assume "s \<noteq> []" and "i = length s - snd (DecodeLastRuneInString s)"
  with DecodeLastRuneInString_size [of s]
  show "(take i s, s) \<in> measure length"
    by (cases s) auto
qed simp

declare lastIndexFunc.simps [simp del]

definition TrimRightFunc :: "string \<Rightarrow> string" where
  "TrimRightFunc s =
     (case lastIndexFunc s of
        None \<Rightarrow> []
      | Some i \<Rightarrow>
          if 128 \<le> byte (s ! i) then take (i + snd (DecodeRuneInString (drop i s))) s
          else take (i + 1) s)"

definition TrimFunc :: "string \<Rightarrow> string" where
  "TrimFunc s = TrimRightFunc (TrimLeftFunc s)"

definition asciiSpace :: "char \<Rightarrow> bool" where
  "asciiSpace c = ((9 \<le> byte c \<and> byte c \<le> 13) \<or> byte c = 32)"

text \<open>
  The first loop of \<^verbatim>\<open>TrimSpace\<close>: skip ASCII spaces, stop at the first byte that is
  not one. The second loop does the same from the right end.
\<close>

fun skipASCIISpace :: "string \<Rightarrow> string" where
  "skipASCIISpace [] = []"
| "skipASCIISpace (c # cs) =
     (if 128 \<le> byte c then c # cs
      else if asciiSpace c then skipASCIISpace cs
      else c # cs)"

definition TrimSpace :: "string \<Rightarrow> string" where
  "TrimSpace s =
     (let t = skipASCIISpace s in
      if t \<noteq> [] \<and> 128 \<le> byte (hd t) then TrimFunc t
      else let u = rev (skipASCIISpace (rev t)) in
        if u \<noteq> [] \<and> 128 \<le> byte (last u) then TrimRightFunc u
        else u)"

text \<open>\<^verbatim>\<open>utf8.RuneCountInString\<close>: the number of runes, an invalid byte counting as one.\<close>

function RuneCountInString :: "string \<Rightarrow> nat" where
  "RuneCountInString s =
     (if s = [] then 0 else 1 + RuneCountInString (drop (snd (DecodeRuneInString s)) s))"
  by pat_completeness auto
termination
proof (relation "measure length")
  fix s :: string
  assume "s \<noteq> []"
  with DecodeRuneInString_size [of s]
  show "(drop (snd (DecodeRuneInString s)) s, s) \<in> measure length"
    by (cases s) auto
qed simp

declare RuneCountInString.simps [simp del]

subsection \<open>IEEE 754 binary64\<close>

text \<open>
  A \<^verbatim>\<open>float64\<close> is a signed infinity, a NaN, or a finite number: \<open>Finite sg m e\<close>
  stands for \<open>(-1)\<^sup>s\<^sup>g * m * 2\<^sup>e\<close>, with \<open>sg\<close> the sign bit (so that both zeros
  exist) and \<open>m\<close> not negative. The representation is not normalised; the program
  never compares two floats, it only multiplies, rounds up and converts to \<^verbatim>\<open>int\<close>.
\<close>

datatype float64 = Finite bool int int | Infty bool | NaN

text \<open>The number of binary digits of a positive integer.\<close>

function bitlen :: "int \<Rightarrow> int" where
  "bitlen n = (if n \<le> 0 then 0 else 1 + bitlen (n div 2))"
  by pat_completeness auto
termination
  by (relation "measure nat") auto

declare bitlen.simps [simp del]

text \<open>\<open>floorlog2 n d\<close> is the integer \<open>k\<close> with \<open>2\<^sup>k \<le> n / d < 2\<^sup>k\<^sup>+\<^sup>1\<close>, for positive \<open>n\<close>, \<open>d\<close>.\<close>

definition floorlog2 :: "int \<Rightarrow> int \<Rightarrow> int" where
  "floorlog2 n d =
     (let k = bitlen n - bitlen d in
      if (0 \<le> k \<and> d * 2 ^ nat k \<le> n) \<or> (k < 0 \<and> d \<le> n * 2 ^ nat (- k)) then k else k - 1)"

text \<open>The quotient \<open>a / b\<close> rounded to the nearest integer, a tie to the even one.\<close>

definition roundHalfEven :: "int \<Rightarrow> int \<Rightarrow> int" where
  "roundHalfEven a b =
     (let q = a div b; r = a mod b in
      if 2 * r < b then q
      else if b < 2 * r then q + 1
      else if even q then q else q + 1)"

text \<open>
  The binary64 number nearest to \<open>(-1)\<^sup>s\<^sup>g * n / d\<close>, for \<open>0 \<le> n\<close> and \<open>0 < d\<close> (round
  to nearest, ties to even): 53 bits of precision, the least exponent of the unit in
  the last place \<open>-1074\<close> (gradual underflow), and overflow to infinity from
  \<open>2\<^sup>1\<^sup>0\<^sup>2\<^sup>4\<close> on.
\<close>

definition roundFloat64 :: "bool \<Rightarrow> int \<Rightarrow> int \<Rightarrow> float64" where
  "roundFloat64 sg n d =
     (if n = 0 then Finite sg 0 0
      else let e = max (floorlog2 n d - 52) (- 1074);
               m = (if 0 \<le> e then roundHalfEven n (d * 2 ^ nat e)
                    else roundHalfEven (n * 2 ^ nat (- e)) d)
        in if 971 < e \<or> (e = 971 \<and> 9007199254740992 \<le> m) then Infty sg
           else Finite sg m e)"

text \<open>The product of two floats, rounded once.\<close>

fun fmul :: "float64 \<Rightarrow> float64 \<Rightarrow> float64" where
  "fmul NaN y = NaN"
| "fmul x NaN = NaN"
| "fmul (Infty s) (Infty t) = Infty (s \<noteq> t)"
| "fmul (Infty s) (Finite t m e) = (if m = 0 then NaN else Infty (s \<noteq> t))"
| "fmul (Finite s m e) (Infty t) = (if m = 0 then NaN else Infty (s \<noteq> t))"
| "fmul (Finite s m e) (Finite t m' e') =
     (if 0 \<le> e + e' then roundFloat64 (s \<noteq> t) (m * m' * 2 ^ nat (e + e')) 1
      else roundFloat64 (s \<noteq> t) (m * m') (2 ^ nat (- (e + e'))))"

text \<open>
  The magnitude of a finite float as a fraction: \<open>m * 2\<^sup>e = magNum m e / magDen e\<close>.
\<close>

definition magNum :: "int \<Rightarrow> int \<Rightarrow> int" where
  "magNum m e = (if 0 \<le> e then m * 2 ^ nat e else m)"

definition magDen :: "int \<Rightarrow> int" where
  "magDen e = (if 0 \<le> e then 1 else 2 ^ nat (- e))"

text \<open>
  \<^verbatim>\<open>math.Ceil\<close>: the least integer not below \<open>x\<close>, as a float; infinities and NaN are
  returned unchanged, and a result of zero keeps the sign of \<open>x\<close>. For a negative \<open>x\<close>
  the magnitude is rounded down, for a positive \<open>x\<close> up.
\<close>

fun Ceil :: "float64 \<Rightarrow> float64" where
  "Ceil NaN = NaN"
| "Ceil (Infty s) = Infty s"
| "Ceil (Finite sg m e) =
     (if sg then Finite sg (magNum m e div magDen e) 0
      else Finite sg (- ((- magNum m e) div magDen e)) 0)"

text \<open>
  The conversion \<^verbatim>\<open>int(f)\<close> drops the fraction (truncation towards zero). For a NaN,
  an infinity or a value outside the 64-bit range, Go leaves the result to the
  implementation; on amd64 the conversion instruction yields the least integer.
\<close>

definition float64_to_int :: "float64 \<Rightarrow> int" where
  "float64_to_int f =
     (case f of
        Finite sg m e \<Rightarrow>
          (let t = (if sg then - 1 else 1) * (magNum m e div magDen e) in
           if - 9223372036854775808 \<le> t \<and> t < 9223372036854775808 then t
           else - 9223372036854775808)
      | Infty s \<Rightarrow> - 9223372036854775808
      | NaN \<Rightarrow> - 9223372036854775808)"

text \<open>The constants \<^verbatim>\<open>100\<close> and \<^verbatim>\<open>0.2\<close> of the source, converted to \<^verbatim>\<open>float64\<close>.\<close>

definition float64_100 :: float64 where
  "float64_100 = roundFloat64 False 100 1"

definition float64_0_2 :: float64 where
  "float64_0_2 = roundFloat64 False 2 10"

subsection \<open>strconv.ParseFloat\<close>

text \<open>
  \<^verbatim>\<open>special\<close> recognises, ignoring case, an optionally signed \<^verbatim>\<open>inf\<close> or \<^verbatim>\<open>infinity\<close>
  and an unsigned \<^verbatim>\<open>nan\<close> at the start of \<open>s\<close>; it returns the value and the number of
  bytes it read.
\<close>

fun commonPrefixLenIgnoreCase :: "string \<Rightarrow> string \<Rightarrow> nat" where
  "commonPrefixLenIgnoreCase (c # cs) (p # ps) =
     (if (if 65 \<le> byte c \<and> byte c \<le> 90 then byte c + 32 else byte c) \<noteq> byte p then 0
      else 1 + commonPrefixLenIgnoreCase cs ps)"
| "commonPrefixLenIgnoreCase s prefix = 0"

definition special :: "string \<Rightarrow> (float64 \<times> nat) option" where
  "special s =
     (if s = [] then None
      else if hd s = CHR ''+'' \<or> hd s = CHR ''-'' \<or> hd s = CHR ''i'' \<or> hd s = CHR ''I'' then
        (let signed = (hd s = CHR ''+'' \<or> hd s = CHR ''-'');
             n = commonPrefixLenIgnoreCase (if signed then tl s else s) ''infinity'';
             n = (if 3 < n \<and> n < 8 then 3 else n)
         in if n = 3 \<or> n = 8 then Some (Infty (hd s = CHR ''-''), (if signed then 1 else 0) + n)
            else None)
      else if hd s = CHR ''n'' \<or> hd s = CHR ''N'' then
        (if commonPrefixLenIgnoreCase s ''nan'' = 3 then Some (NaN, 3) else None)
      else None)"

text \<open>
  \<^verbatim>\<open>underscoreOK\<close>: an underscore may only stand between two digits, or between a base
  prefix and a digit. \<open>saw\<close> is the kind of the last byte seen.
\<close>

fun underscoreScan :: "bool \<Rightarrow> char \<Rightarrow> string \<Rightarrow> bool" where
  "underscoreScan hex saw [] = (saw \<noteq> CHR ''_'')"
| "underscoreScan hex saw (c # cs) =
     (if isDigit c \<or> (hex \<and> isHexLetter c) then underscoreScan hex (CHR ''0'') cs
      else if c = CHR ''_'' then (if saw \<noteq> CHR ''0'' then False else underscoreScan hex (CHR ''_'') cs)
      else if saw = CHR ''_'' then False
      else underscoreScan hex (CHR ''!'') cs)"

definition underscoreOK :: "string \<Rightarrow> bool" where
  "underscoreOK s =
     (let s1 = (if s \<noteq> [] \<and> (hd s = CHR ''-'' \<or> hd s = CHR ''+'') then tl s else s);
          prefix = (2 \<le> length s1 \<and> hd s1 = CHR ''0''
                     \<and> (lower (s1 ! 1) = 98 \<or> lower (s1 ! 1) = 111 \<or> lower (s1 ! 1) = 120));
          hex = (prefix \<and> lower (s1 ! 1) = 120)
      in underscoreScan hex (if prefix then CHR ''0'' else CHR ''^'')
           (if prefix then drop 2 s1 else s1))"

text \<open>
  The digit loop of \<^verbatim>\<open>readFloat\<close>. \<open>nd\<close> counts the digits after the leading zeros,
  \<open>dp\<close> is the position of the point among them. The source keeps the first 19 digits
  (16 in base 16) in a \<^verbatim>\<open>uint64\<close> and a flag for the rest, from which the conversion
  still rounds the exact value correctly; here \<open>mantissa\<close> holds all the digits.
\<close>

record readState =
  underscores :: bool
  sawdot :: bool
  sawdigits :: bool
  nd :: int
  mantissa :: int
  dp :: int

fun readDigits :: "int \<Rightarrow> readState \<Rightarrow> string \<Rightarrow> readState \<times> string" where
  "readDigits base st [] = (st, [])"
| "readDigits base st (c # cs) =
     (if c = CHR ''_'' then readDigits base (st\<lparr>underscores := True\<rparr>) cs
      else if c = CHR ''.'' then
        (if sawdot st then (st, c # cs)
         else readDigits base (st\<lparr>sawdot := True, dp := nd st\<rparr>) cs)
      else if isDigit c then
        (if c = CHR ''0'' \<and> nd st = 0
         then readDigits base (st\<lparr>sawdigits := True, dp := dp st - 1\<rparr>) cs
         else readDigits base
                (st\<lparr>sawdigits := True, nd := nd st + 1,
                    mantissa := mantissa st * base + digitVal c\<rparr>) cs)
      else if base = 16 \<and> isHexLetter c then
        readDigits base
          (st\<lparr>sawdigits := True, nd := nd st + 1,
              mantissa := mantissa st * 16 + (lower c - 97 + 10)\<rparr>) cs
      else (st, c # cs))"

text \<open>The digits of the exponent; the source stops accumulating from 10000 on.\<close>

fun readExponent :: "int \<Rightarrow> bool \<Rightarrow> string \<Rightarrow> int \<times> bool \<times> string" where
  "readExponent e us [] = (e, us, [])"
| "readExponent e us (c # cs) =
     (if c = CHR ''_'' then readExponent e True cs
      else if isDigit c then readExponent (if e < 10000 then e * 10 + digitVal c else e) us cs
      else (e, us, c # cs))"

text \<open>
  \<^verbatim>\<open>readFloat\<close>: sign, optional \<^verbatim>\<open>0x\<close>, digits with at most one point, exponent (after
  \<^verbatim>\<open>e\<close>, or \<^verbatim>\<open>p\<close> in base 16 where it is required). The result is the mantissa, the
  exponent (of 10, or of 2 in base 16), the sign, the base flag and the number of
  bytes read; \<open>None\<close> when the source returns \<^verbatim>\<open>ok = false\<close>.
\<close>

definition readFloat :: "string \<Rightarrow> (int \<times> int \<times> bool \<times> bool \<times> nat) option" where
  "readFloat s =
     (if s = [] then None
      else let neg = (hd s = CHR ''-'');
               s1 = (if hd s = CHR ''+'' \<or> hd s = CHR ''-'' then tl s else s);
               hex = (2 < length s1 \<and> hd s1 = CHR ''0'' \<and> lower (s1 ! 1) = 120);
               (st, s3) = readDigits (if hex then 16 else 10)
                   \<lparr>underscores = False, sawdot = False, sawdigits = False,
                    nd = 0, mantissa = 0, dp = 0\<rparr>
                   (if hex then drop 2 s1 else s1)
        in if \<not> sawdigits st then None
           else let dp1 = (if sawdot st then dp st else nd st);
                    dp2 = (if hex then dp1 * 4 else dp1);
                    ndMant = (if hex then nd st * 4 else nd st)
             in if s3 \<noteq> [] \<and> lower (hd s3) = (if hex then 112 else 101) then
                  (let s4 = tl s3 in
                   if s4 = [] then None
                   else let esign = (if hd s4 = CHR ''-'' then - 1 else 1 :: int);
                            s5 = (if hd s4 = CHR ''+'' \<or> hd s4 = CHR ''-'' then tl s4 else s4)
                     in if s5 = [] \<or> \<not> isDigit (hd s5) then None
                        else let (e, us, s6) = readExponent 0 (underscores st) s5;
                                 i = length s - length s6
                          in if us \<and> \<not> underscoreOK (take i s) then None
                             else Some (mantissa st,
                                        (if mantissa st \<noteq> 0 then dp2 + e * esign - ndMant else 0),
                                        neg, hex, i))
                else if hex then None
                else let i = length s - length s3
                  in if underscores st \<and> \<not> underscoreOK (take i s) then None
                     else Some (mantissa st, (if mantissa st \<noteq> 0 then dp2 - ndMant else 0),
                                neg, hex, i))"

text \<open>
  \<^verbatim>\<open>atof64\<close>: a special value, or the float nearest to \<open>mantissa * base\<^sup>e\<^sup>x\<^sup>p\<close>. A value
  that rounds to an infinity is a range error. The result is the float and the number
  of bytes read, \<open>None\<close> for an error.
\<close>

definition scaled :: "bool \<Rightarrow> int \<Rightarrow> int \<Rightarrow> int \<Rightarrow> float64" where
  "scaled neg mant base exp =
     (if 0 \<le> exp then roundFloat64 neg (mant * base ^ nat exp) 1
      else roundFloat64 neg mant (base ^ nat (- exp)))"

definition atof64 :: "string \<Rightarrow> (float64 \<times> nat) option" where
  "atof64 s =
     (case special s of
        Some (val, n) \<Rightarrow> Some (val, n)
      | None \<Rightarrow>
          (case readFloat s of
             None \<Rightarrow> None
           | Some (mant, exp, neg, hex, n) \<Rightarrow>
               (case scaled neg mant (if hex then 2 else 10) exp of
                  Infty sg \<Rightarrow> None
                | f \<Rightarrow> Some (f, n))))"

text \<open>\<^verbatim>\<open>ParseFloat(s, 64)\<close>: the whole of \<open>s\<close> must have been read.\<close>

definition ParseFloat :: "string \<Rightarrow> float64 option" where
  "ParseFloat s =
     (case atof64 s of
        None \<Rightarrow> None
      | Some (f, n) \<Rightarrow> if n \<noteq> length s then None else Some f)"

section \<open>The program\<close>

subsection \<open>Data\<close>

record Item =
  ShortDescription :: string
  Price :: string

record Receipt =
  Retailer :: string
  PurchaseDate :: string
  PurchaseTime :: string
  Items :: "Item list"
  Total :: string

text \<open>
  The store maps identifiers to points. Its mutex serialises concurrent calls; every
  method holds it from entry to return, so a call is one atomic step on the map.
\<close>

record ReceiptStore =
  receipts :: "string \<rightharpoonup> int"

text \<open>The run-time panic of a slice expression whose bounds are out of range.\<close>

datatype error = SliceBoundsOutOfRange

subsection \<open>calculatePoints\<close>

text \<open>
  Rule 1 (lines 66 to 70): the \<^verbatim>\<open>range\<close> loop decodes the retailer name rune by rune
  and counts the ASCII letters and digits; \<open>alphanumeric\<close> is the condition of line 67.
\<close>

definition alphanumeric :: "int \<Rightarrow> bool" where
  "alphanumeric char =
     ((97 \<le> char \<and> char \<le> 122) \<or> (65 \<le> char \<and> char \<le> 90) \<or> (48 \<le> char \<and> char \<le> 57))"

function rule1 :: "string \<Rightarrow> int \<Rightarrow> int" where
  "rule1 retailer points =
     (if retailer = [] then points
      else let char = fst (DecodeRuneInString retailer);
               rest = drop (snd (DecodeRuneInString retailer)) retailer
        in if alphanumeric char
           then rule1 rest (wrap64 (points + 1))
           else rule1 rest points)"
  by pat_completeness auto
termination
proof (relation "measure (\<lambda>(retailer, points). length retailer)")
  fix retailer :: string and rest :: string
  assume "retailer \<noteq> []" and "rest = drop (snd (DecodeRuneInString retailer)) retailer"
  with DecodeRuneInString_size [of retailer]
  have "length rest < length retailer"
    by (cases retailer) auto
  then show "\<And>points char. ((rest, wrap64 (points + 1)), (retailer, points))
      \<in> measure (\<lambda>(retailer, points). length retailer)"
    and "\<And>points char. ((rest, points), (retailer, points))
      \<in> measure (\<lambda>(retailer, points). length retailer)"
    by simp_all
qed simp

declare rule1.simps [simp del]

text \<open>
  Rule 2 (lines 73 to 75): the slice \<^verbatim>\<open>receipt.Total[len(receipt.Total)-3:]\<close> panics when
  the total has fewer than three bytes.
\<close>

definition rule2 :: "string \<Rightarrow> int \<Rightarrow> error + int" where
  "rule2 tot points =
     (if length tot < 3 then Inl SliceBoundsOutOfRange
      else if drop (length tot - 3) tot = ''.00'' then Inr (wrap64 (points + 50))
      else Inr points)"

text \<open>Rule 3 (lines 78 to 80).\<close>

definition rule3 :: "string \<Rightarrow> int \<Rightarrow> int" where
  "rule3 tot points =
     (case ParseFloat tot of
        Some totalFloat \<Rightarrow>
          if go_rem (float64_to_int (fmul totalFloat float64_100)) 25 = 0
          then wrap64 (points + 25) else points
      | None \<Rightarrow> points)"

text \<open>Rule 4 (line 83).\<close>

definition rule4 :: "Item list \<Rightarrow> int \<Rightarrow> int" where
  "rule4 items points = wrap64 (points + wrap64 ((int (length items) div 2) * 5))"

text \<open>Rule 5 (lines 86 to 93): the loop over the items.\<close>

fun rule5 :: "Item list \<Rightarrow> int \<Rightarrow> int" where
  "rule5 [] points = points"
| "rule5 (item # items) points =
     (let trimmedLength = length (TrimSpace (ShortDescription item)) in
      if trimmedLength mod 3 = 0 then
        (case ParseFloat (Price item) of
           Some price \<Rightarrow>
             rule5 items (wrap64 (points + float64_to_int (Ceil (fmul price float64_0_2))))
         | None \<Rightarrow> rule5 items points)
      else rule5 items points)"

text \<open>Rule 6 (lines 96 to 100).\<close>

definition rule6 :: "string \<Rightarrow> int \<Rightarrow> int" where
  "rule6 purchaseDate points =
     (let dateParts = Split purchaseDate (CHR ''-'') in
      if length dateParts = 3 then
        (case Atoi (dateParts ! 2) of
           Some day \<Rightarrow> if go_rem day 2 = 1 then wrap64 (points + 6) else points
         | None \<Rightarrow> points)
      else points)"

text \<open>Rule 7 (lines 103 to 107).\<close>

definition rule7 :: "string \<Rightarrow> int \<Rightarrow> int" where
  "rule7 purchaseTime points =
     (let timeParts = Split purchaseTime (CHR '':'') in
      if length timeParts = 2 then
        (case Atoi (timeParts ! 0) of
           Some hour \<Rightarrow> if 14 \<le> hour \<and> hour < 16 then wrap64 (points + 10) else points
         | None \<Rightarrow> points)
      else points)"

text \<open>The function runs the seven rules in order on the running total \<^verbatim>\<open>points\<close>.\<close>

definition calculatePoints :: "Receipt \<Rightarrow> error + int" where
  "calculatePoints receipt =
     (let points = rule1 (Retailer receipt) 0 in
      case rule2 (Total receipt) points of
        Inl e \<Rightarrow> Inl e
      | Inr points \<Rightarrow>
          (let points = rule3 (Total receipt) points;
               points = rule4 (Items receipt) points;
               points = rule5 (Items receipt) points;
               points = rule6 (PurchaseDate receipt) points;
               points = rule7 (PurchaseTime receipt) points
           in Inr points))"

subsection \<open>The receipt store\<close>

definition NewReceiptStore :: ReceiptStore where
  "NewReceiptStore = \<lparr>receipts = Map.empty\<rparr>"

text \<open>
  \<^verbatim>\<open>AddReceipt\<close>: \<open>ident\<close> (the variable \<^verbatim>\<open>id\<close> of the source) is the string that
  \<^verbatim>\<open>uuid.New().String()\<close> returns in this call, an input from the environment. A panic
  of \<^verbatim>\<open>calculatePoints\<close> leaves the method before the map is written; the deferred
  unlock still runs.
\<close>

definition AddReceipt :: "string \<Rightarrow> Receipt \<Rightarrow> ReceiptStore \<Rightarrow> error + (string \<times> ReceiptStore)" where
  "AddReceipt ident receipt s =
     (case calculatePoints receipt of
        Inl e \<Rightarrow> Inl e
      | Inr points \<Rightarrow> Inr (ident, s\<lparr>receipts := (receipts s)(ident \<mapsto> points)\<rparr>))"

text \<open>
  \<^verbatim>\<open>GetPoints\<close>: the two results of the map read (the zero value and \<^verbatim>\<open>false\<close> for a
  missing key), and the store after the call.
\<close>

definition GetPoints :: "string \<Rightarrow> ReceiptStore \<Rightarrow> (int \<times> bool) \<times> ReceiptStore" where
  "GetPoints ident s =
     (case receipts s ident of
        None \<Rightarrow> ((0, False), s)
      | Some points \<Rightarrow> ((points, True), s))"

section \<open>The scoring rules as the specification words them\<close>

text \<open>
  The contribution of each rule as an unbounded integer, for comparison with the
  running total that the program threads through its seven blocks. A field that does
  not parse contributes \<open>0\<close>.
\<close>

text \<open>Rule 1: the number of ASCII letters and digits among the runes of the name.\<close>

function alnumRunes :: "string \<Rightarrow> int" where
  "alnumRunes s =
     (if s = [] then 0
      else (if alphanumeric (fst (DecodeRuneInString s)) then 1 else 0)
           + alnumRunes (drop (snd (DecodeRuneInString s)) s))"
  by pat_completeness auto
termination
proof (relation "measure length")
  fix s :: string
  assume "s \<noteq> []"
  with DecodeRuneInString_size [of s]
  show "(drop (snd (DecodeRuneInString s)) s, s) \<in> measure length"
    by (cases s) auto
qed simp

declare alnumRunes.simps [simp del]

text \<open>Rule 2: 50 if the last three bytes of the total are \<^verbatim>\<open>.00\<close>.\<close>

definition roundDollar :: "string \<Rightarrow> int" where
  "roundDollar tot = (if rev (take 3 (rev tot)) = ''.00'' then 50 else 0)"

text \<open>Rule 3: 25 if the total, as a float times 100 converted to an integer, is a multiple of 25.\<close>

definition quarterMultiple :: "string \<Rightarrow> int" where
  "quarterMultiple tot =
     (case ParseFloat tot of
        Some totalFloat \<Rightarrow> if 25 dvd float64_to_int (fmul totalFloat float64_100) then 25 else 0
      | None \<Rightarrow> 0)"

text \<open>Rule 4: 5 for every two items.\<close>

definition itemPairs :: "Item list \<Rightarrow> int" where
  "itemPairs items = (int (length items) div 2) * 5"

text \<open>
  Rule 5, for one item: the price times 0.2, rounded up, if the length of the trimmed
  description is a multiple of 3.
\<close>

definition descriptionBonus :: "Item \<Rightarrow> int" where
  "descriptionBonus item =
     (if 3 dvd length (TrimSpace (ShortDescription item)) then
        (case ParseFloat (Price item) of
           Some price \<Rightarrow> float64_to_int (Ceil (fmul price float64_0_2))
         | None \<Rightarrow> 0)
      else 0)"

text \<open>Rule 6: 6 if the third of exactly three dash-separated parts is an odd day.\<close>

definition oddDay :: "string \<Rightarrow> int" where
  "oddDay purchaseDate =
     (case Split purchaseDate (CHR ''-'') of
        [y, m, d] \<Rightarrow> (case Atoi d of Some day \<Rightarrow> if 0 < day \<and> odd day then 6 else 0 | None \<Rightarrow> 0)
      | _ \<Rightarrow> 0)"

text \<open>Rule 7: 10 if the first of exactly two colon-separated parts is the hour 14 or 15.\<close>

definition afternoon :: "string \<Rightarrow> int" where
  "afternoon purchaseTime =
     (case Split purchaseTime (CHR '':'') of
        [h, m] \<Rightarrow> (case Atoi h of Some hour \<Rightarrow> if hour = 14 \<or> hour = 15 then 10 else 0 | None \<Rightarrow> 0)
      | _ \<Rightarrow> 0)"

text \<open>The seven contributions together.\<close>

definition ruleSum :: "Receipt \<Rightarrow> int" where
  "ruleSum receipt =
     alnumRunes (Retailer receipt) + roundDollar (Total receipt) + quarterMultiple (Total receipt)
       + itemPairs (Items receipt) + sum_list (map descriptionBonus (Items receipt))
       + oddDay (PurchaseDate receipt) + afternoon (PurchaseTime receipt)"

section \<open>Example receipts and scenarios\<close>

text \<open>The reference receipt of the documentation.\<close>

definition target_receipt :: Receipt where
  "target_receipt =
     \<lparr>Retailer = ''Target'', PurchaseDate = ''2022-01-01'', PurchaseTime = ''13:01'',
      Items = [\<lparr>ShortDescription = ''Mountain Dew 12PK'', Price = ''6.49''\<rparr>,
               \<lparr>ShortDescription = ''Emils Cheese Pizza'', Price = ''12.25''\<rparr>,
               \<lparr>ShortDescription = ''Knorr Creamy Chicken'', Price = ''1.26''\<rparr>,
               \<lparr>ShortDescription = ''Doritos Nacho Cheese'', Price = ''3.35''\<rparr>,
               \<lparr>ShortDescription = ''Klarbrunn 12-PK 12 FL OZ'', Price = ''12.00''\<rparr>],
      Total = ''35.35''\<rparr>"

text \<open>
  A receipt whose total has one byte, one with a negative price, and one with two
  prices of \<open>4 * 10\<^sup>1\<^sup>9\<close>.
\<close>

definition short_total_receipt :: Receipt where
  "short_total_receipt =
     \<lparr>Retailer = ''Target'', PurchaseDate = ''2022-01-01'', PurchaseTime = ''13:01'',
      Items = [], Total = ''5''\<rparr>"

definition negative_price_receipt :: Receipt where
  "negative_price_receipt =
     \<lparr>Retailer = ''A'', PurchaseDate = ''2022-01-02'', PurchaseTime = ''13:01'',
      Items = [\<lparr>ShortDescription = ''abc'', Price = ''-100.00''\<rparr>], Total = ''1.01''\<rparr>"

text \<open>A receipt with a round total.\<close>

definition overflow_receipt :: Receipt where
  "overflow_receipt =
     \<lparr>Retailer = ''A'', PurchaseDate = ''2022-01-02'', PurchaseTime = ''13:01'',
      Items = [\<lparr>ShortDescription = ''abc'', Price = ''4e19''\<rparr>,
               \<lparr>ShortDescription = ''abc'', Price = ''4e19''\<rparr>],
      Total = ''1.01''\<rparr>"

text \<open>A receipt none of whose fields parses, and one with a round total.\<close>

definition malformed_receipt :: Receipt where
  "malformed_receipt =
     \<lparr>Retailer = ''A&B'', PurchaseDate = ''yesterday'', PurchaseTime = ''noon'',
      Items = [\<lparr>ShortDescription = ''abc'', Price = ''free''\<rparr>], Total = ''abc''\<rparr>"

definition round_dollar_receipt :: Receipt where
  "round_dollar_receipt =
     \<lparr>Retailer = ''Target'', PurchaseDate = ''2022-01-01'', PurchaseTime = ''13:01'',
      Items = [], Total = ''35.00''\<rparr>"




definition euro_item :: Item where
  "euro_item = \<lparr>ShortDescription = [CHR 0xE2, CHR 0x82, CHR 0xAC], Price = ''10.00''\<rparr>"

definition letter_item :: Item where
  "letter_item = \<lparr>ShortDescription = ''a'', Price = ''10.00''\<rparr>"

text \<open>A store that holds a score of 0.\<close>

definition zero_store :: ReceiptStore where
  "zero_store = \<lparr>receipts = [''id-1'' \<mapsto> 0]\<rparr>"

text \<open>\<open>n\<close> calls of \<^verbatim>\<open>GetPoints\<close> in a row: their results and the store after them.\<close>

fun repeatGetPoints :: "nat \<Rightarrow> string \<Rightarrow> ReceiptStore \<Rightarrow> (int \<times> bool) list \<times> ReceiptStore" where
  "repeatGetPoints 0 ident s = ([], s)"
| "repeatGetPoints (Suc n) ident s =
     (case GetPoints ident s of
        (r, s') \<Rightarrow> (case repeatGetPoints n ident s' of (rs, s'') \<Rightarrow> (r # rs, s'')))"

text \<open>
  The same receipt submitted twice, with the identifiers \<open>id1\<close> and \<open>id2\<close> generated
  for the two calls, then a lookup of each identifier returned.
\<close>

definition addTwiceThenGet ::
    "string \<Rightarrow> string \<Rightarrow> Receipt \<Rightarrow> ReceiptStore
      \<Rightarrow> error + ((string \<times> string) \<times> (int \<times> bool) \<times> (int \<times> bool))" where
  "addTwiceThenGet id1 id2 receipt s =
     (case AddReceipt id1 receipt s of
        Inl e \<Rightarrow> Inl e
      | Inr (i1, s1) \<Rightarrow>
          (case AddReceipt id2 receipt s1 of
             Inl e \<Rightarrow> Inl e
           | Inr (i2, s2) \<Rightarrow>
               (case GetPoints i1 s2 of
                  (r1, s3) \<Rightarrow> (case GetPoints i2 s3 of (r2, s4) \<Rightarrow> Inr ((i1, i2), r1, r2)))))"

section \<open>Properties\<close>

subsection \<open>Wrap-around and remainders\<close>

lemma wrap64_add_left: "wrap64 (wrap64 a + b) = wrap64 (a + b)"
proof -
  have "(((a + 9223372036854775808) mod 18446744073709551616 - 9223372036854775808) + b
          + 9223372036854775808) mod 18446744073709551616
      = ((a + 9223372036854775808) mod 18446744073709551616 + b) mod 18446744073709551616"
    by (simp add: algebra_simps)
  also have "\<dots> = (a + 9223372036854775808 + b) mod 18446744073709551616"
    by (rule mod_add_left_eq)
  also have "\<dots> = (a + b + 9223372036854775808) mod 18446744073709551616"
    by (simp add: algebra_simps)
  finally show ?thesis by (simp add: wrap64_def)
qed

lemma wrap64_add_right: "wrap64 (a + wrap64 b) = wrap64 (a + b)"
  using wrap64_add_left [of b a] by (simp add: add.commute)

lemma wrap64_idem: "wrap64 (wrap64 a) = wrap64 a"
  using wrap64_add_left [of a 0] by simp

lemma wrap64_id: "- 9223372036854775808 \<le> x \<Longrightarrow> x < 9223372036854775808 \<Longrightarrow> wrap64 x = x"
  by (simp add: wrap64_def)

lemma go_rem_zero: "b \<noteq> 0 \<Longrightarrow> go_rem a b = 0 \<longleftrightarrow> b dvd a"
  by (auto simp: go_rem_def sgn_if dvd_eq_mod_eq_0 [symmetric])

lemma go_rem_2: "go_rem day 2 = 1 \<longleftrightarrow> 0 < day \<and> odd day"
  by (auto simp: go_rem_def sgn_if odd_iff_mod_2_eq_one)

subsection \<open>Each block adds its rule's contribution\<close>

lemma rule1_sum: "rule1 s (wrap64 a) = wrap64 (a + alnumRunes s)"
proof (induction s "wrap64 a" arbitrary: a rule: rule1.induct)
  case (1 retailer)
  show ?case
  proof (cases "retailer = []")
    case True
    then show ?thesis by (simp add: rule1.simps alnumRunes.simps wrap64_idem)
  next
    case False
    let ?c = "fst (DecodeRuneInString retailer)"
    let ?rest = "drop (snd (DecodeRuneInString retailer)) retailer"
    show ?thesis
    proof (cases "alphanumeric ?c")
      case True
      have "rule1 ?rest (wrap64 (wrap64 a + 1)) = wrap64 (a + 1 + alnumRunes ?rest)"
        using "1.hyps"(1) [OF False refl refl True, of "a + 1"] by (simp add: wrap64_add_left)
      with False True show ?thesis
        by (subst rule1.simps, subst alnumRunes.simps) (simp add: Let_def algebra_simps)
    next
      case F: False
      have "rule1 ?rest (wrap64 a) = wrap64 (a + alnumRunes ?rest)"
        using "1.hyps"(2) [OF False refl refl F, of a] by simp
      with False F show ?thesis
        by (subst rule1.simps, subst alnumRunes.simps) (simp add: Let_def)
    qed
  qed
qed

lemma suffix_slice:
  assumes "3 \<le> length tot"
  shows "drop (length tot - 3) tot = ''.00'' \<longleftrightarrow> (\<exists>pre. tot = pre @ ''.00'')"
proof
  assume "drop (length tot - 3) tot = ''.00''"
  then have "tot = take (length tot - 3) tot @ ''.00''"
    using append_take_drop_id [of "length tot - 3" tot] by simp
  then show "\<exists>pre. tot = pre @ ''.00''" ..
next
  assume "\<exists>pre. tot = pre @ ''.00''"
  then obtain pre where "tot = pre @ ''.00''" ..
  then show "drop (length tot - 3) tot = ''.00''" by simp
qed

lemma rule2_sum:
  "3 \<le> length tot \<Longrightarrow> rule2 tot (wrap64 a) = Inr (wrap64 (a + roundDollar tot))"
  by (simp add: rule2_def roundDollar_def take_rev wrap64_add_left wrap64_idem)

lemma rule2_short: "length tot < 3 \<Longrightarrow> rule2 tot points = Inl SliceBoundsOutOfRange"
  by (simp add: rule2_def)

lemma rule3_sum: "rule3 tot (wrap64 a) = wrap64 (a + quarterMultiple tot)"
  by (simp add: rule3_def quarterMultiple_def go_rem_zero wrap64_add_left wrap64_idem
           split: option.split)

lemma rule4_sum: "rule4 items (wrap64 a) = wrap64 (a + itemPairs items)"
  by (simp add: rule4_def itemPairs_def wrap64_add_left wrap64_add_right)

lemma rule5_sum: "rule5 items (wrap64 a) = wrap64 (a + sum_list (map descriptionBonus items))"
proof (induction items arbitrary: a)
  case Nil
  then show ?case by (simp add: wrap64_idem)
next
  case (Cons item items)
  show ?case
  proof (cases "3 dvd length (TrimSpace (ShortDescription item))")
    case False
    then show ?thesis
      using Cons.IH [of a] by (simp add: descriptionBonus_def dvd_eq_mod_eq_0)
  next
    case True
    show ?thesis
    proof (cases "ParseFloat (Price item)")
      case None
      with True show ?thesis
        using Cons.IH [of a] by (simp add: descriptionBonus_def dvd_eq_mod_eq_0)
    next
      case (Some price)
      with True show ?thesis
        using Cons.IH [of "a + float64_to_int (Ceil (fmul price float64_0_2))"]
        by (simp add: descriptionBonus_def dvd_eq_mod_eq_0 wrap64_add_left add.assoc)
    qed
  qed
qed

lemma length_3: "length xs = 3 \<longleftrightarrow> (\<exists>a b c. xs = [a, b, c])"
  by (auto simp: length_Suc_conv eval_nat_numeral)

lemma length_2: "length xs = 2 \<longleftrightarrow> (\<exists>a b. xs = [a, b])"
  by (auto simp: length_Suc_conv eval_nat_numeral)

lemma rule6_sum: "rule6 purchaseDate (wrap64 a) = wrap64 (a + oddDay purchaseDate)"
proof (cases "length (Split purchaseDate (CHR ''-'')) = 3")
  case True
  then obtain y m d where "Split purchaseDate (CHR ''-'') = [y, m, d]"
    by (auto simp: length_3)
  then show ?thesis
    by (simp add: rule6_def oddDay_def go_rem_2 wrap64_add_left wrap64_idem split: option.split)
next
  case False
  then have "oddDay purchaseDate = 0"
    by (auto simp: oddDay_def split: list.split)
  with False show ?thesis by (simp add: rule6_def wrap64_idem)
qed

lemma rule7_sum: "rule7 purchaseTime (wrap64 a) = wrap64 (a + afternoon purchaseTime)"
proof (cases "length (Split purchaseTime (CHR '':'')) = 2")
  case True
  then obtain h m where "Split purchaseTime (CHR '':'') = [h, m]"
    by (auto simp: length_2)
  moreover have "\<And>hour :: int. (14 \<le> hour \<and> hour < 16) = (hour = 14 \<or> hour = 15)" by auto
  ultimately show ?thesis
    by (simp add: rule7_def afternoon_def wrap64_add_left wrap64_idem split: option.split)
next
  case False
  then have "afternoon purchaseTime = 0"
    by (auto simp: afternoon_def split: list.split)
  with False show ?thesis by (simp add: rule7_def wrap64_idem)
qed

subsection \<open>The function as a whole\<close>

lemma calculatePoints_sum:
  assumes "3 \<le> length (Total receipt)"
  shows "calculatePoints receipt = Inr (wrap64 (ruleSum receipt))"
proof -
  have r1: "rule1 (Retailer receipt) 0 = wrap64 (alnumRunes (Retailer receipt))"
    using rule1_sum [of "Retailer receipt" 0] by (simp add: wrap64_def)
  show ?thesis
    unfolding calculatePoints_def Let_def r1 rule2_sum [OF assms]
    by (simp add: rule3_sum rule4_sum rule5_sum rule6_sum rule7_sum ruleSum_def)
qed

lemma calculatePoints_short:
  "length (Total receipt) < 3 \<Longrightarrow> calculatePoints receipt = Inl SliceBoundsOutOfRange"
  by (simp add: calculatePoints_def rule2_short)

lemma alnumRunes_nonneg: "0 \<le> alnumRunes s"
proof (induction s rule: alnumRunes.induct)
  case (1 s)
  then show ?case by (subst alnumRunes.simps) auto
qed

lemma fixed_rules_nonneg:
  "0 \<le> roundDollar tot" "0 \<le> quarterMultiple tot" "0 \<le> itemPairs items"
  "0 \<le> oddDay purchaseDate" "0 \<le> afternoon purchaseTime"
  by (auto simp: roundDollar_def quarterMultiple_def itemPairs_def oddDay_def afternoon_def
           split: option.split list.split)

lemma descriptionBonus_sum_nonneg:
  "\<forall>item \<in> set items. 0 \<le> descriptionBonus item \<Longrightarrow> 0 \<le> sum_list (map descriptionBonus items)"
  by (induction items) auto

lemma ruleSum_nonneg:
  "\<forall>item \<in> set (Items receipt). 0 \<le> descriptionBonus item \<Longrightarrow> 0 \<le> ruleSum receipt"
  using alnumRunes_nonneg [of "Retailer receipt"] fixed_rules_nonneg(1) [of "Total receipt"]
    fixed_rules_nonneg(2) [of "Total receipt"] fixed_rules_nonneg(3) [of "Items receipt"]
    fixed_rules_nonneg(4) [of "PurchaseDate receipt"] fixed_rules_nonneg(5) [of "PurchaseTime receipt"]
    descriptionBonus_sum_nonneg [of "Items receipt"]
  by (simp add: ruleSum_def)

subsection \<open>The store\<close>

text \<open>
  For a receipt whose total has at least three bytes, \<^verbatim>\<open>AddReceipt\<close> returns the
  identifier it was given, stores the score under it and leaves every other entry as
  it was.
\<close>

lemma AddReceipt_frame:
  assumes "3 \<le> length (Total receipt)" and "ident \<notin> dom (receipts s)"
  shows "\<exists>s'. AddReceipt ident receipt s = Inr (ident, s')
     \<and> receipts s' = (receipts s)(ident \<mapsto> wrap64 (ruleSum receipt))
     \<and> calculatePoints receipt = Inr (wrap64 (ruleSum receipt))
     \<and> (\<forall>k \<in> dom (receipts s). receipts s' k = receipts s k)
     \<and> dom (receipts s') = insert ident (dom (receipts s))"
  using assms calculatePoints_sum [OF assms(1)] by (auto simp: AddReceipt_def)

text \<open>
  Two submissions of such a receipt under fresh identifiers: the identifiers differ and
  each lookup finds the score.
\<close>

lemma addTwiceThenGet_distinct:
  assumes "3 \<le> length (Total receipt)"
    and "id1 \<notin> dom (receipts s)" and "id2 \<notin> dom (receipts s) \<union> {id1}"
  shows "id1 \<noteq> id2
     \<and> addTwiceThenGet id1 id2 receipt s
         = Inr ((id1, id2), (wrap64 (ruleSum receipt), True), (wrap64 (ruleSum receipt), True))
     \<and> calculatePoints receipt = Inr (wrap64 (ruleSum receipt))"
  using assms calculatePoints_sum [OF assms(1)]
  by (auto simp: addTwiceThenGet_def AddReceipt_def GetPoints_def)

section \<open>The claims\<close>

text \<open>
  Claim C1, as the code has it: for every receipt whose total has at least three
  bytes, \<^verbatim>\<open>calculatePoints\<close> returns an integer, the sum of the seven contributions
  wrapped to 64 bits. A field that does not parse contributes 0: the total in rule 3,
  a price in rule 5, a date that has not three parts in rule 6, a time that has not two
  parts in rule 7. The result is the sum itself, and not negative, when no item has a
  negative description bonus and the sum is below \<open>2\<^sup>6\<^sup>3\<close>.
\<close>

theorem calculatePoints_total:
  assumes "3 \<le> length (Total receipt)"
  shows "calculatePoints receipt = Inr (wrap64 (ruleSum receipt))
     \<and> ((\<forall>item \<in> set (Items receipt). 0 \<le> descriptionBonus item)
          \<and> ruleSum receipt < 9223372036854775808
        \<longrightarrow> wrap64 (ruleSum receipt) = ruleSum receipt \<and> 0 \<le> ruleSum receipt)
     \<and> (ParseFloat (Total receipt) = None \<longrightarrow> quarterMultiple (Total receipt) = 0)
     \<and> (\<forall>item \<in> set (Items receipt). ParseFloat (Price item) = None \<longrightarrow> descriptionBonus item = 0)
     \<and> (length (Split (PurchaseDate receipt) (CHR ''-'')) \<noteq> 3 \<longrightarrow> oddDay (PurchaseDate receipt) = 0)
     \<and> (length (Split (PurchaseTime receipt) (CHR '':'')) \<noteq> 2 \<longrightarrow> afternoon (PurchaseTime receipt) = 0)"
proof -
  have a: "calculatePoints receipt = Inr (wrap64 (ruleSum receipt))"
    using assms by (rule calculatePoints_sum)
  have b: "wrap64 (ruleSum receipt) = ruleSum receipt \<and> 0 \<le> ruleSum receipt"
    if "\<forall>item \<in> set (Items receipt). 0 \<le> descriptionBonus item"
      and "ruleSum receipt < 9223372036854775808"
    using ruleSum_nonneg [OF that(1)] that(2) by (simp add: wrap64_id)
  have c: "ParseFloat (Total receipt) = None \<longrightarrow> quarterMultiple (Total receipt) = 0"
    by (simp add: quarterMultiple_def)
  have d: "\<forall>item \<in> set (Items receipt). ParseFloat (Price item) = None \<longrightarrow> descriptionBonus item = 0"
    by (simp add: descriptionBonus_def)
  have e: "length (Split (PurchaseDate receipt) (CHR ''-'')) \<noteq> 3 \<longrightarrow> oddDay (PurchaseDate receipt) = 0"
    by (auto simp: oddDay_def split: list.split)
  have f: "length (Split (PurchaseTime receipt) (CHR '':'')) \<noteq> 2 \<longrightarrow> afternoon (PurchaseTime receipt) = 0"
    by (auto simp: afternoon_def split: list.split)
  from a b c d e f show ?thesis by blast
qed

theorem calculatePoints_total_witness:
  "3 \<le> length (Total target_receipt)
   \<and> list_all (\<lambda>item. 0 \<le> descriptionBonus item) (Items target_receipt)
   \<and> ruleSum target_receipt = 28
   \<and> calculatePoints target_receipt = Inr (ruleSum target_receipt)
   \<and> 3 \<le> length (Total malformed_receipt)
   \<and> ParseFloat (Total malformed_receipt) = None
   \<and> list_all (\<lambda>item. ParseFloat (Price item) = None) (Items malformed_receipt)
   \<and> length (Split (PurchaseDate malformed_receipt) (CHR ''-'')) = 1
   \<and> length (Split (PurchaseTime malformed_receipt) (CHR '':'')) = 1
   \<and> calculatePoints malformed_receipt = Inr 2"
proof -
  have h1: "3 \<le> length (Total target_receipt)" by code_simp
  have h2: "list_all (\<lambda>item. 0 \<le> descriptionBonus item) (Items target_receipt)" by code_simp
  have h3: "ruleSum target_receipt = 28" by code_simp
  from h2 have h2': "\<forall>item \<in> set (Items target_receipt). 0 \<le> descriptionBonus item"
    by (simp add: list_all_iff)
  from calculatePoints_total [OF h1] h2' h3
  have t: "calculatePoints target_receipt = Inr (ruleSum target_receipt)" by simp
  have m1: "3 \<le> length (Total malformed_receipt)" by code_simp
  have m2: "ParseFloat (Total malformed_receipt) = None" by code_simp
  have m3: "list_all (\<lambda>item. ParseFloat (Price item) = None) (Items malformed_receipt)"
    by code_simp
  have m4: "length (Split (PurchaseDate malformed_receipt) (CHR ''-'')) = 1" by code_simp
  have m5: "length (Split (PurchaseTime malformed_receipt) (CHR '':'')) = 1" by code_simp
  have m6: "wrap64 (ruleSum malformed_receipt) = 2" by code_simp
  from calculatePoints_total [OF m1] m6
  have m: "calculatePoints malformed_receipt = Inr 2" by simp
  from h1 h2 h3 t m1 m2 m3 m4 m5 m show ?thesis by (intro conjI)
qed

text \<open>
  Claim C1 as stated (every receipt yields a non-negative integer, never a failure)
  does not hold: a total of one byte makes the slice of rule 2 panic, a negative price
  makes the score negative, and two prices of \<open>4 * 10\<^sup>1\<^sup>9\<close> make the sum wrap around.
\<close>

theorem calculatePoints_fails_or_negative:
  "calculatePoints short_total_receipt = Inl SliceBoundsOutOfRange
   \<and> calculatePoints negative_price_receipt = Inr (- 19)
   \<and> calculatePoints overflow_receipt = Inr (- 2446744073709551610)"
  by code_simp

text \<open>
  Claim C2: when the total has at least three bytes, the slice of rule 2 is in bounds,
  so rule 2 and the whole function return; rule 2 adds 50 to the running total exactly
  when the total ends in \<^verbatim>\<open>.00\<close>, and the addition does not wrap while the running
  total is below \<open>2\<^sup>6\<^sup>3 - 50\<close>.
\<close>

theorem rule2_in_bounds:
  assumes "3 \<le> length (Total receipt)"
  shows "rule2 (Total receipt) points
           = Inr (if \<exists>pre. Total receipt = pre @ ''.00'' then wrap64 (points + 50) else points)
     \<and> (- 9223372036854775808 \<le> points \<and> points < 9223372036854775758
          \<longrightarrow> wrap64 (points + 50) = points + 50)
     \<and> (\<exists>p. calculatePoints receipt = Inr p)"
proof (intro conjI)
  have "rule2 (Total receipt) points
          = Inr (if drop (length (Total receipt) - 3) (Total receipt) = ''.00''
                 then wrap64 (points + 50) else points)"
    using assms by (simp add: rule2_def)
  then show "rule2 (Total receipt) points
           = Inr (if \<exists>pre. Total receipt = pre @ ''.00'' then wrap64 (points + 50) else points)"
    unfolding suffix_slice [OF assms] .
  show "- 9223372036854775808 \<le> points \<and> points < 9223372036854775758
          \<longrightarrow> wrap64 (points + 50) = points + 50"
    by (simp add: wrap64_id)
  show "\<exists>p. calculatePoints receipt = Inr p"
    using calculatePoints_sum [OF assms] by (rule exI)
qed

theorem rule2_in_bounds_witness:
  "3 \<le> length (Total round_dollar_receipt)
   \<and> rule2 (Total round_dollar_receipt) 6 = Inr 56
   \<and> calculatePoints round_dollar_receipt = Inr 87"
proof -
  have h: "3 \<le> length (Total round_dollar_receipt)" by code_simp
  have "Total round_dollar_receipt = ''35'' @ ''.00''"
    by (simp add: round_dollar_receipt_def)
  then have sfx: "\<exists>pre. Total round_dollar_receipt = pre @ ''.00''"
    by (rule exI [where x = "''35''"])
  from rule2_in_bounds [OF h, of 6]
  have "rule2 (Total round_dollar_receipt) 6
          = Inr (if \<exists>pre. Total round_dollar_receipt = pre @ ''.00'' then wrap64 (6 + 50) else 6)"
    by (rule conjunct1)
  with sfx have "rule2 (Total round_dollar_receipt) 6 = Inr (wrap64 (6 + 50))"
    by (simp only: if_True)
  moreover have "wrap64 (6 + 50) = 56" by code_simp
  ultimately have r: "rule2 (Total round_dollar_receipt) 6 = Inr 56" by (simp only:)
  have c: "calculatePoints round_dollar_receipt = Inr 87" by code_simp
  from h r c show ?thesis by (intro conjI)
qed

text \<open>
  Claim C3: the reference receipt (retailer Target, five items, total 35.35, bought on
  2022-01-01 at 13:01) scores exactly 28 points.
\<close>

theorem reference_receipt_points: "calculatePoints target_receipt = Inr 28"
  by code_simp

text \<open>
  Claim C4: \<^verbatim>\<open>GetPoints\<close> returns \<open>(0, False)\<close> for an identifier that is not in the map
  and the stored score with \<open>True\<close> for one that is; the flag tells the two apart, also
  when the stored score is 0.
\<close>

theorem GetPoints_found:
  "(receipts s ident = None \<longrightarrow> fst (GetPoints ident s) = (0, False))
   \<and> (receipts s ident = Some points \<longrightarrow> fst (GetPoints ident s) = (points, True))
   \<and> (snd (fst (GetPoints ident s)) \<longleftrightarrow> ident \<in> dom (receipts s))"
  by (auto simp: GetPoints_def split: option.split)

theorem GetPoints_found_witness:
  "receipts zero_store ''id-2'' = None \<and> fst (GetPoints ''id-2'' zero_store) = (0, False)
   \<and> receipts zero_store ''id-1'' = Some 0 \<and> fst (GetPoints ''id-1'' zero_store) = (0, True)"
proof -
  have a: "receipts zero_store ''id-2'' = None" by (simp add: zero_store_def)
  have b: "receipts zero_store ''id-1'' = Some 0" by (simp add: zero_store_def)
  from a b GetPoints_found [of zero_store "''id-2''" 0] GetPoints_found [of zero_store "''id-1''" 0]
  show ?thesis by simp
qed

text \<open>
  Claim C5: two submissions of the same receipt return two identifiers, each of which
  finds the score. For a receipt whose total has fewer than three bytes the program
  does not: the first \<^verbatim>\<open>AddReceipt\<close> panics in rule 2, where the other rules skip a
  field they cannot read. (Lemma \<open>addTwiceThenGet_distinct\<close> is the claim for all other
  receipts.)
\<close>

theorem addTwiceThenGet_short_total:
  "addTwiceThenGet ''id-1'' ''id-2'' short_total_receipt NewReceiptStore = Inl SliceBoundsOutOfRange"
  by code_simp

text \<open>
  Claim C6: \<^verbatim>\<open>GetPoints\<close> leaves the store as it was, and any number of calls in a row
  for one identifier all return the result of the first.
\<close>

theorem GetPoints_read_only:
  "snd (GetPoints ident s) = s
   \<and> repeatGetPoints n ident s = (replicate n (fst (GetPoints ident s)), s)"
proof -
  have frame: "snd (GetPoints ident s) = s" for s
    by (simp add: GetPoints_def split: option.split)
  have "repeatGetPoints n ident s = (replicate n (fst (GetPoints ident s)), s)"
  proof (induction n)
    case 0
    show ?case by simp
  next
    case (Suc n)
    obtain r where g: "GetPoints ident s = (r, s)"
      using frame [of s] by (cases "GetPoints ident s") auto
    with Suc show ?case by simp
  qed
  with frame show ?thesis by simp
qed



text \<open>
  Claim C8: rule 3 adds 25 when the total parses as a float whose product with 100,
  converted to \<^verbatim>\<open>int\<close>, is a multiple of 25, and nothing when it is not or when the
  total does not parse; the total 35.25 earns 25, the total 35.10 earns 0.
\<close>

theorem rule3_quarter_multiple:
  "(ParseFloat tot = Some totalFloat \<and> 25 dvd float64_to_int (fmul totalFloat float64_100)
      \<longrightarrow> rule3 tot points = wrap64 (points + 25))
   \<and> (ParseFloat tot = Some totalFloat \<and> \<not> 25 dvd float64_to_int (fmul totalFloat float64_100)
      \<longrightarrow> rule3 tot points = points)
   \<and> (ParseFloat tot = None \<longrightarrow> rule3 tot points = points)
   \<and> rule3 ''35.25'' 0 = 25 \<and> rule3 ''35.10'' 0 = 0"
proof -
  have "rule3 ''35.25'' 0 = 25" by code_simp
  moreover have "rule3 ''35.10'' 0 = 0" by code_simp
  ultimately show ?thesis by (simp add: rule3_def go_rem_zero)
qed

theorem rule3_quarter_multiple_witness:
  "ParseFloat ''35.25'' = Some (Finite False 4960996464525312 (- 47))
   \<and> 25 dvd float64_to_int (fmul (Finite False 4960996464525312 (- 47)) float64_100)
   \<and> rule3 ''35.25'' 7 = 32
   \<and> ParseFloat ''thirty'' = None \<and> rule3 ''thirty'' 7 = 7"
proof -
  have a: "ParseFloat ''35.25'' = Some (Finite False 4960996464525312 (- 47))" by code_simp
  have b: "25 dvd float64_to_int (fmul (Finite False 4960996464525312 (- 47)) float64_100)"
    by code_simp
  have c: "ParseFloat ''thirty'' = None" by code_simp
  have d: "wrap64 (7 + 25) = 32" by code_simp
  from rule3_quarter_multiple [of "''35.25''" "Finite False 4960996464525312 (- 47)" 7] a b d
  have "rule3 ''35.25'' 7 = 32" by simp
  moreover from rule3_quarter_multiple [of "''thirty''" _ 7] c
  have "rule3 ''thirty'' 7 = 7" by simp
  ultimately show ?thesis using a b c by simp
qed

text \<open>
  Claim C9: \<^verbatim>\<open>AddReceipt\<close> adds one entry, the returned identifier with the score of
  the receipt. For a receipt whose total has fewer than three bytes the program does
  not: whatever the identifier and the store, the call panics in rule 2 and adds
  nothing. (Lemma \<open>AddReceipt_frame\<close> is the claim for all other receipts.)
\<close>

theorem AddReceipt_short_total:
  "AddReceipt ident short_total_receipt s = Inl SliceBoundsOutOfRange"
proof -
  have "calculatePoints short_total_receipt = Inl SliceBoundsOutOfRange" by code_simp
  then show ?thesis by (simp add: AddReceipt_def)
qed

text \<open>
  Claim C10: rule 5 measures the trimmed description in bytes. The euro sign is one
  rune of three bytes, so an item described by it alone earns the bonus (2 points for
  a price of 10.00), while an item described by one letter earns none.
\<close>

theorem rule5_counts_bytes:
  "TrimSpace (ShortDescription euro_item) = ShortDescription euro_item
   \<and> RuneCountInString (TrimSpace (ShortDescription euro_item)) = 1
   \<and> length (TrimSpace (ShortDescription euro_item)) = 3
   \<and> rule5 [euro_item] 0 = 2
   \<and> RuneCountInString (TrimSpace (ShortDescription letter_item)) = 1
   \<and> rule5 [letter_item] 0 = 0"
  by code_simp

end
